theory Spec2Isabelle
  imports Main "HOL-Library.Monad_Syntax" "HOL-Library.Multiset"
begin

section \<open>The cube engine of cubeLogic.ts\<close>

subsection \<open>Data model (types.ts)\<close>

text \<open>
  A face is a \<^verbatim>\<open>string[][]\<close>: a list of rows, each a list of stickers. The type does not
  fix the 3x3 shape, so neither does the model; the shape is the predicate \<open>is3x3\<close> below.
  The object \<^verbatim>\<open>faces\<close> has six fixed keys, in the order in which
  \<^verbatim>\<open>createSolvedCube\<close> writes them (the order of \<^verbatim>\<open>Object.values\<close>).
\<close>

type_synonym face = "string list list"

record Faces =
  front :: face
  "back" :: face
  left :: face
  right :: face
  top' :: face
  bottom :: face

record CubeState =
  faces :: Faces
  solved :: bool
  moveHistory :: "string list"

datatype FaceName = Front | Back | Left | Right | Top | Bottom

fun getFace :: "Faces \<Rightarrow> FaceName \<Rightarrow> face" where
  "getFace s Front = front s"
| "getFace s Back = back s"
| "getFace s Left = left s"
| "getFace s Right = right s"
| "getFace s Top = top' s"
| "getFace s Bottom = bottom s"

fun setFace :: "FaceName \<Rightarrow> face \<Rightarrow> Faces \<Rightarrow> Faces" where
  "setFace Front f s = s\<lparr>front := f\<rparr>"
| "setFace Back f s = s\<lparr>back := f\<rparr>"
| "setFace Left f s = s\<lparr>left := f\<rparr>"
| "setFace Right f s = s\<lparr>right := f\<rparr>"
| "setFace Top f s = s\<lparr>top' := f\<rparr>"
| "setFace Bottom f s = s\<lparr>bottom := f\<rparr>"

text \<open>The constants \<^verbatim>\<open>COLORS\<close> of types.ts.\<close>

definition WHITE :: string where "WHITE = ''W''"
definition YELLOW :: string where "YELLOW = ''Y''"
definition RED :: string where "RED = ''R''"
definition ORANGE :: string where "ORANGE = ''O''"
definition BLUE :: string where "BLUE = ''B''"
definition GREEN :: string where "GREEN = ''G''"

definition COLORS :: "string list" where
  "COLORS = [WHITE, YELLOW, RED, ORANGE, BLUE, GREEN]"

definition uniform :: "string \<Rightarrow> face" where
  "uniform c = [[c, c, c], [c, c, c], [c, c, c]]"

definition createSolvedCube :: CubeState where
  "createSolvedCube =
     \<lparr>faces = \<lparr>front = uniform GREEN, back = uniform BLUE, left = uniform ORANGE,
               right = uniform RED, top' = uniform WHITE, bottom = uniform YELLOW\<rparr>,
      solved = True, moveHistory = []\<rparr>"

text \<open>
  \<^verbatim>\<open>getState\<close> and \<^verbatim>\<open>setState\<close> copy through JSON: on values the copy is the identity,
  and \<^verbatim>\<open>setState\<close> installs the snapshot as it is, flag and history included.
\<close>

definition getState :: "CubeState \<Rightarrow> CubeState" where
  "getState this = this"

definition setState :: "CubeState \<Rightarrow> CubeState \<Rightarrow> CubeState" where
  "setState newState this = newState"

subsection \<open>Indexing\<close>

text \<open>
  Every index the engine uses is checked: \<open>None\<close> marks an access outside its array.
  JavaScript reads \<^verbatim>\<open>undefined\<close> there, lengthens the array on a write, or throws a
  TypeError when the row itself is missing; none of that is followed here, so a result
  \<open>Some\<close> says that every index used was inside its array.
\<close>

definition item :: "'a list \<Rightarrow> nat \<Rightarrow> 'a option" where
  "item xs i = (if i < length xs then Some (xs ! i) else None)"

definition row :: "face \<Rightarrow> nat \<Rightarrow> string list option" where
  "row f i = item f i"

definition cell :: "face \<Rightarrow> nat \<Rightarrow> nat \<Rightarrow> string option" where
  "cell f i j = do { r \<leftarrow> row f i; item r j }"

definition setRow :: "face \<Rightarrow> nat \<Rightarrow> string list \<Rightarrow> face option" where
  "setRow f i r = (if i < length f then Some (f[i := r]) else None)"

definition setCell :: "face \<Rightarrow> nat \<Rightarrow> nat \<Rightarrow> string \<Rightarrow> face option" where
  "setCell f i j v =
     do { r \<leftarrow> row f i; if j < length r then Some (f[i := r[j := v]]) else None }"

text \<open>The statements of the move functions, on the faces object.\<close>

definition getRow :: "Faces \<Rightarrow> FaceName \<Rightarrow> nat \<Rightarrow> string list option" where
  "getRow s X i = row (getFace s X) i"

definition getCell :: "Faces \<Rightarrow> FaceName \<Rightarrow> nat \<Rightarrow> nat \<Rightarrow> string option" where
  "getCell s X i j = cell (getFace s X) i j"

definition putRow :: "FaceName \<Rightarrow> nat \<Rightarrow> string list \<Rightarrow> Faces \<Rightarrow> Faces option" where
  "putRow X i r s = do { f \<leftarrow> setRow (getFace s X) i r; Some (setFace X f s) }"

definition putCell :: "FaceName \<Rightarrow> nat \<Rightarrow> nat \<Rightarrow> string \<Rightarrow> Faces \<Rightarrow> Faces option" where
  "putCell X i j v s = do { f \<leftarrow> setCell (getFace s X) i j v; Some (setFace X f s) }"

text \<open>\<^verbatim>\<open>faces.X[i] = [...faces.Y[k]]\<close>\<close>

definition copyRow :: "FaceName \<Rightarrow> nat \<Rightarrow> FaceName \<Rightarrow> nat \<Rightarrow> Faces \<Rightarrow> Faces option" where
  "copyRow X i Y k s = do { r \<leftarrow> getRow s Y k; putRow X i r s }"

text \<open>\<^verbatim>\<open>faces.X[i][j] = faces.Y[k][l]\<close>\<close>

definition copyCell ::
  "FaceName \<Rightarrow> nat \<Rightarrow> nat \<Rightarrow> FaceName \<Rightarrow> nat \<Rightarrow> nat \<Rightarrow> Faces \<Rightarrow> Faces option" where
  "copyCell X i j Y k l s = do { v \<leftarrow> getCell s Y k l; putCell X i j v s }"

subsection \<open>rotateFace\<close>

text \<open>
  The double loop \<^verbatim>\<open>rotated[j][n - 1 - i] = face[i][j]\<close> over an n x n array of empty
  strings, \<^verbatim>\<open>n = face.length\<close>.
\<close>

definition rotateFace :: "face \<Rightarrow> face option" where
  "rotateFace f =
     (let n = length f in
      fold (\<lambda>i acc. fold (\<lambda>j acc. do {
                 rotated \<leftarrow> acc;
                 v \<leftarrow> cell f i j;
                 setCell rotated j (n - 1 - i) v }) [0..<n] acc)
        [0..<n] (Some (replicate n (replicate n ''''))))"

definition turnFace :: "FaceName \<Rightarrow> Faces \<Rightarrow> Faces option" where
  "turnFace X s = do { f \<leftarrow> rotateFace (getFace s X); Some (setFace X f s) }"

subsection \<open>The six clockwise quarter turns\<close>

definition moveU :: "Faces \<Rightarrow> Faces option" where
  "moveU s0 = do {
     s \<leftarrow> turnFace Top s0;
     temp \<leftarrow> getRow s Front 0;
     s \<leftarrow> copyRow Front 0 Right 0 s;
     s \<leftarrow> copyRow Right 0 Back 0 s;
     s \<leftarrow> copyRow Back 0 Left 0 s;
     putRow Left 0 temp s }"

definition moveD :: "Faces \<Rightarrow> Faces option" where
  "moveD s0 = do {
     s \<leftarrow> turnFace Bottom s0;
     temp \<leftarrow> getRow s Front 2;
     s \<leftarrow> copyRow Front 2 Left 2 s;
     s \<leftarrow> copyRow Left 2 Back 2 s;
     s \<leftarrow> copyRow Back 2 Right 2 s;
     putRow Right 2 temp s }"

definition moveR :: "Faces \<Rightarrow> Faces option" where
  "moveR s0 = do {
     s \<leftarrow> turnFace Right s0;
     temp0 \<leftarrow> getCell s Front 0 2;
     temp1 \<leftarrow> getCell s Front 1 2;
     temp2 \<leftarrow> getCell s Front 2 2;
     s \<leftarrow> copyCell Front 0 2 Bottom 0 2 s;
     s \<leftarrow> copyCell Front 1 2 Bottom 1 2 s;
     s \<leftarrow> copyCell Front 2 2 Bottom 2 2 s;
     s \<leftarrow> copyCell Bottom 0 2 Back 2 0 s;
     s \<leftarrow> copyCell Bottom 1 2 Back 1 0 s;
     s \<leftarrow> copyCell Bottom 2 2 Back 0 0 s;
     s \<leftarrow> copyCell Back 0 0 Top 2 2 s;
     s \<leftarrow> copyCell Back 1 0 Top 1 2 s;
     s \<leftarrow> copyCell Back 2 0 Top 0 2 s;
     s \<leftarrow> putCell Top 0 2 temp0 s;
     s \<leftarrow> putCell Top 1 2 temp1 s;
     putCell Top 2 2 temp2 s }"

definition moveL :: "Faces \<Rightarrow> Faces option" where
  "moveL s0 = do {
     s \<leftarrow> turnFace Left s0;
     temp0 \<leftarrow> getCell s Front 0 0;
     temp1 \<leftarrow> getCell s Front 1 0;
     temp2 \<leftarrow> getCell s Front 2 0;
     s \<leftarrow> copyCell Front 0 0 Top 0 0 s;
     s \<leftarrow> copyCell Front 1 0 Top 1 0 s;
     s \<leftarrow> copyCell Front 2 0 Top 2 0 s;
     s \<leftarrow> copyCell Top 0 0 Back 2 2 s;
     s \<leftarrow> copyCell Top 1 0 Back 1 2 s;
     s \<leftarrow> copyCell Top 2 0 Back 0 2 s;
     s \<leftarrow> copyCell Back 0 2 Bottom 2 0 s;
     s \<leftarrow> copyCell Back 1 2 Bottom 1 0 s;
     s \<leftarrow> copyCell Back 2 2 Bottom 0 0 s;
     s \<leftarrow> putCell Bottom 0 0 temp0 s;
     s \<leftarrow> putCell Bottom 1 0 temp1 s;
     putCell Bottom 2 0 temp2 s }"

definition moveF :: "Faces \<Rightarrow> Faces option" where
  "moveF s0 = do {
     s \<leftarrow> turnFace Front s0;
     temp \<leftarrow> getRow s Top 2;
     l22 \<leftarrow> getCell s Left 2 2;
     l12 \<leftarrow> getCell s Left 1 2;
     l02 \<leftarrow> getCell s Left 0 2;
     s \<leftarrow> putRow Top 2 [l22, l12, l02] s;
     s \<leftarrow> copyCell Left 0 2 Bottom 0 0 s;
     s \<leftarrow> copyCell Left 1 2 Bottom 0 1 s;
     s \<leftarrow> copyCell Left 2 2 Bottom 0 2 s;
     r20 \<leftarrow> getCell s Right 2 0;
     r10 \<leftarrow> getCell s Right 1 0;
     r00 \<leftarrow> getCell s Right 0 0;
     s \<leftarrow> putRow Bottom 0 [r20, r10, r00] s;
     temp0 \<leftarrow> item temp 0;
     s \<leftarrow> putCell Right 0 0 temp0 s;
     temp1 \<leftarrow> item temp 1;
     s \<leftarrow> putCell Right 1 0 temp1 s;
     temp2 \<leftarrow> item temp 2;
     putCell Right 2 0 temp2 s }"

definition moveB :: "Faces \<Rightarrow> Faces option" where
  "moveB s0 = do {
     s \<leftarrow> turnFace Back s0;
     temp \<leftarrow> getRow s Top 0;
     r02 \<leftarrow> getCell s Right 0 2;
     r12 \<leftarrow> getCell s Right 1 2;
     r22 \<leftarrow> getCell s Right 2 2;
     s \<leftarrow> putRow Top 0 [r02, r12, r22] s;
     s \<leftarrow> copyCell Right 0 2 Bottom 2 2 s;
     s \<leftarrow> copyCell Right 1 2 Bottom 2 1 s;
     s \<leftarrow> copyCell Right 2 2 Bottom 2 0 s;
     l20 \<leftarrow> getCell s Left 2 0;
     l10 \<leftarrow> getCell s Left 1 0;
     l00 \<leftarrow> getCell s Left 0 0;
     s \<leftarrow> putRow Bottom 2 [l20, l10, l00] s;
     temp2 \<leftarrow> item temp 2;
     s \<leftarrow> putCell Left 0 0 temp2 s;
     temp1 \<leftarrow> item temp 1;
     s \<leftarrow> putCell Left 1 0 temp1 s;
     temp0 \<leftarrow> item temp 0;
     putCell Left 2 0 temp0 s }"

subsection \<open>isSolved\<close>

text \<open>
  The loops of \<^verbatim>\<open>isSolved\<close>, with their early \<^verbatim>\<open>return false\<close>: the faces in the order
  of \<^verbatim>\<open>Object.values\<close>, and on each face the cells row by row against \<^verbatim>\<open>face[0][0]\<close>.
\<close>

definition positions :: "(nat \<times> nat) list" where
  "positions = concat (map (\<lambda>i. map (\<lambda>j. (i, j)) [0..<3]) [0..<3])"

fun scanCells :: "face \<Rightarrow> string \<Rightarrow> (nat \<times> nat) list \<Rightarrow> bool option" where
  "scanCells f firstColor [] = Some True"
| "scanCells f firstColor ((i, j) # ps) = do {
     v \<leftarrow> cell f i j;
     if v \<noteq> firstColor then Some False else scanCells f firstColor ps }"

fun scanFaces :: "face list \<Rightarrow> bool option" where
  "scanFaces [] = Some True"
| "scanFaces (f # fs) = do {
     firstColor \<leftarrow> cell f 0 0;
     same \<leftarrow> scanCells f firstColor positions;
     if same then scanFaces fs else Some False }"

definition Object_values :: "Faces \<Rightarrow> face list" where
  "Object_values s = [front s, back s, left s, right s, top' s, bottom s]"

definition isSolved :: "CubeState \<Rightarrow> bool option" where
  "isSolved this = scanFaces (Object_values (faces this))"

definition checkSolved :: "CubeState \<Rightarrow> bool option" where
  "checkSolved this = isSolved this"

subsection \<open>executeMove\<close>

definition apostrophe :: string where
  "apostrophe = [CHR 0x27]"

definition twice :: "(Faces \<Rightarrow> Faces option) \<Rightarrow> Faces \<Rightarrow> Faces option" where
  "twice m s = do { s \<leftarrow> m s; m s }"

definition thrice :: "(Faces \<Rightarrow> Faces option) \<Rightarrow> Faces \<Rightarrow> Faces option" where
  "thrice m s = do { s \<leftarrow> m s; s \<leftarrow> m s; m s }"

text \<open>The switch of \<^verbatim>\<open>getMoveFunction\<close>; \<open>None\<close> is its default branch, which throws.\<close>

definition getMoveFunction :: "string \<Rightarrow> (Faces \<Rightarrow> Faces option) option" where
  "getMoveFunction move =
    (if move = ''U'' then Some moveU
     else if move = ''U'' @ apostrophe then Some (thrice moveU)
     else if move = ''U2'' then Some (twice moveU)
     else if move = ''D'' then Some moveD
     else if move = ''D'' @ apostrophe then Some (thrice moveD)
     else if move = ''D2'' then Some (twice moveD)
     else if move = ''R'' then Some moveR
     else if move = ''R'' @ apostrophe then Some (thrice moveR)
     else if move = ''R2'' then Some (twice moveR)
     else if move = ''L'' then Some moveL
     else if move = ''L'' @ apostrophe then Some (thrice moveL)
     else if move = ''L2'' then Some (twice moveL)
     else if move = ''F'' then Some moveF
     else if move = ''F'' @ apostrophe then Some (thrice moveF)
     else if move = ''F2'' then Some (twice moveF)
     else if move = ''B'' then Some moveB
     else if move = ''B'' @ apostrophe then Some (thrice moveB)
     else if move = ''B2'' then Some (twice moveB)
     else None)"

datatype error = UnknownMove string | SessionNotFound string

text \<open>
  A call of \<^verbatim>\<open>executeMove\<close> on the engine state \<open>this\<close> ends in one of three ways:
  \<open>Some (Inl e, this')\<close>, the call threw \<open>e\<close> and left the engine in \<open>this'\<close>;
  \<open>Some (Inr (), this')\<close>, the call returned and left the engine in \<open>this'\<close>;
  \<open>None\<close>, the move or the solved check used an index outside its array.
  \<^verbatim>\<open>getMoveFunction\<close> throws before anything is assigned.
\<close>

definition executeMove :: "string \<Rightarrow> CubeState \<Rightarrow> ((error + unit) \<times> CubeState) option" where
  "executeMove move this =
    (case getMoveFunction move of
       None \<Rightarrow> Some (Inl (UnknownMove move), this)
     | Some moveFunc \<Rightarrow> do {
         fs \<leftarrow> moveFunc (faces this);
         let this = this\<lparr>faces := fs\<rparr>;
         let this = this\<lparr>moveHistory := moveHistory this @ [move]\<rparr>;
         s \<leftarrow> checkSolved this;
         Some (Inr (), this\<lparr>solved := s\<rparr>) })"

text \<open>The 18 tokens of the type \<^verbatim>\<open>CubeMove\<close>, in the order of types.ts.\<close>

definition CubeMove :: "string list" where
  "CubeMove = [''U'', ''D'', ''L'', ''R'', ''F'', ''B'',
     ''U'' @ apostrophe, ''D'' @ apostrophe, ''L'' @ apostrophe,
     ''R'' @ apostrophe, ''F'' @ apostrophe, ''B'' @ apostrophe,
     ''U2'', ''D2'', ''L2'', ''R2'', ''F2'', ''B2'']"

subsection \<open>The shape of a state\<close>

definition is3x3 :: "face \<Rightarrow> bool" where
  "is3x3 f = (length f = 3 \<and> list_all (\<lambda>r. length r = 3) f)"

definition wellShaped :: "Faces \<Rightarrow> bool" where
  "wellShaped s = list_all is3x3 (Object_values s)"

text \<open>
  A caller's loop over \<^verbatim>\<open>executeMove\<close> (as in \<^verbatim>\<open>scramble\<close>): the calls run one after the
  other on the same engine; the result is \<open>Some\<close> when every call returned.
\<close>

fun executeMoves :: "string list \<Rightarrow> CubeState \<Rightarrow> CubeState option" where
  "executeMoves [] this = Some this"
| "executeMoves (move # moves) this =
     (case executeMove move this of
        Some (Inr u, this') \<Rightarrow> executeMoves moves this'
      | Some (Inl e, this') \<Rightarrow> None
      | None \<Rightarrow> None)"

subsection \<open>Measures used in the statements\<close>

definition stickers :: "Faces \<Rightarrow> string list" where
  "stickers s = concat (concat (Object_values s))"

definition colorCount :: "CubeState \<Rightarrow> string \<Rightarrow> nat" where
  "colorCount this c = count_list (stickers (faces this)) c"

text \<open>"All 9 stickers of the face are identical to each other", for each of the faces.\<close>

definition allIdentical :: "face \<Rightarrow> bool" where
  "allIdentical f = (\<forall>x \<in> set (concat f). \<forall>y \<in> set (concat f). x = y)"

definition everyFaceUniform :: "Faces \<Rightarrow> bool" where
  "everyFaceUniform s = list_all allIdentical (Object_values s)"

text \<open>"All 9 stickers of the face equal the face's own first sticker."\<close>

definition equalsFirst :: "face \<Rightarrow> bool" where
  "equalsFirst f = (\<forall>i \<in> {0, 1, 2}. \<forall>j \<in> {0, 1, 2}. f ! i ! j = f ! 0 ! 0)"

text \<open>A 90-degree clockwise rotation of a grid: the transpose with every row reversed.\<close>

definition clockwise :: "face \<Rightarrow> face" where
  "clockwise f = map rev (transpose f)"

section \<open>The tool handlers of app.ts\<close>

datatype Status = active | completed

record GameSession =
  id' :: string
  cubeState :: CubeState
  createdAt :: int
  lastActivity :: int
  status :: Status

record CubeResponse =
  gameId :: string
  cube :: CubeState
  nextAction :: "string option"

text \<open>
  The map \<^verbatim>\<open>games\<close>: each entry pairs the engine (its private state) with the session.
  \<^verbatim>\<open>Date.now()\<close> is a parameter of each handler.
\<close>

type_synonym Game = "CubeState \<times> GameSession"
type_synonym Games = "string \<rightharpoonup> Game"

text \<open>
  \<^verbatim>\<open>VisualizationServer.updateSession\<close>. \<^verbatim>\<open>startCube\<close> registers with the visualization
  server the very session object it stores in \<^verbatim>\<open>games\<close>, so the assignments land on the
  session of the game.
\<close>

definition updateSession :: "CubeState \<Rightarrow> int \<Rightarrow> GameSession \<Rightarrow> GameSession" where
  "updateSession newState now session =
     (let session = session\<lparr>cubeState := newState\<rparr>;
          session = session\<lparr>lastActivity := now\<rparr>
      in if solved newState then session\<lparr>status := completed\<rparr> else session)"

text \<open>
  The handler of the tool \<^verbatim>\<open>manipulateCube\<close>; \<open>now\<close> and \<open>now'\<close> are the clock readings of
  the handler and of \<^verbatim>\<open>updateSession\<close>. A throw of \<^verbatim>\<open>executeMove\<close> leaves the handler
  before the session is touched.
\<close>

definition manipulateCube ::
  "string \<Rightarrow> string \<Rightarrow> int \<Rightarrow> int \<Rightarrow> Games \<Rightarrow> ((error + CubeResponse) \<times> Games) option" where
  "manipulateCube gId move now now' games =
    (case games gId of
       None \<Rightarrow> Some (Inl (SessionNotFound gId), games)
     | Some (engine, session) \<Rightarrow>
         if status session = completed then
           Some (Inr \<lparr>gameId = gId, cube = getState engine, nextAction = Some ''finish''\<rparr>, games)
         else do {
           (r, engine) \<leftarrow> executeMove move engine;
           case r of
             Inl e \<Rightarrow> Some (Inl e, games(gId \<mapsto> (engine, session)))
           | Inr u \<Rightarrow>
              (let newState = getState engine;
                   session = session\<lparr>cubeState := newState\<rparr>;
                   session = session\<lparr>lastActivity := now\<rparr>;
                   session = (if solved newState then session\<lparr>status := completed\<rparr> else session);
                   session = updateSession newState now' session
               in Some (Inr \<lparr>gameId = gId, cube = newState,
                             nextAction = Some (if solved newState then ''finish''
                                                else ''manipulateCube'')\<rparr>,
                        games(gId \<mapsto> (engine, session)))) })"

text \<open>The handler of the tool \<^verbatim>\<open>finish\<close>.\<close>

definition finish :: "string \<Rightarrow> int \<Rightarrow> Games \<Rightarrow> (error + CubeResponse) \<times> Games" where
  "finish gId now games =
    (case games gId of
       None \<Rightarrow> (Inl (SessionNotFound gId), games)
     | Some (engine, session) \<Rightarrow>
        (let finalState = getState engine;
             session = session\<lparr>status := completed\<rparr>;
             session = session\<lparr>lastActivity := now\<rparr>
         in (Inr \<lparr>gameId = gId, cube = finalState, nextAction = None\<rparr>,
             games(gId \<mapsto> (engine, session)))))"

section \<open>A state used in the examples\<close>

text \<open>The engine state after \<^verbatim>\<open>executeMove('R')\<close> on a new cube.\<close>

definition afterR :: CubeState where
  "afterR =
     \<lparr>faces = \<lparr>front = [[GREEN, GREEN, YELLOW], [GREEN, GREEN, YELLOW], [GREEN, GREEN, YELLOW]],
               back = [[WHITE, BLUE, BLUE], [WHITE, BLUE, BLUE], [WHITE, BLUE, BLUE]],
               left = uniform ORANGE,
               right = uniform RED,
               top' = [[WHITE, WHITE, GREEN], [WHITE, WHITE, GREEN], [WHITE, WHITE, GREEN]],
               bottom = [[YELLOW, YELLOW, BLUE], [YELLOW, YELLOW, BLUE], [YELLOW, YELLOW, BLUE]]\<rparr>,
      solved = False, moveHistory = [''R'']\<rparr>"

text \<open>A session around that engine, and a registry that holds it under the id \<open>g\<close>.\<close>

definition exampleSession :: "Status \<Rightarrow> GameSession" where
  "exampleSession st =
     \<lparr>id' = ''g'', cubeState = afterR, createdAt = 1, lastActivity = 2, status = st\<rparr>"

definition exampleGames :: "Status \<Rightarrow> Games" where
  "exampleGames st = [''g'' \<mapsto> (afterR, exampleSession st)]"

section \<open>Evaluating the engine on 3x3 grids\<close>

lemma upt3: "[0..<3] = [0, 1, 2]"
  by (simp add: upt_rec)

lemma length3E:
  assumes "length xs = 3"
  obtains a b c where "xs = [a, b, c]"
  using assms by (auto simp: numeral_3_eq_3 length_Suc_conv)

lemma is3x3E:
  assumes "is3x3 f"
  obtains a b c d e g h i k where "f = [[a, b, c], [d, e, g], [h, i, k]]"
proof -
  from assms obtain r0 r1 r2 where f: "f = [r0, r1, r2]"
    by (auto simp: is3x3_def elim: length3E)
  with assms have "length r0 = 3" "length r1 = 3" "length r2 = 3"
    by (simp_all add: is3x3_def)
  then show thesis using f that
    by (auto elim!: length3E)
qed

lemma is3x3_grid [simp]: "is3x3 [[a, b, c], [d, e, g], [h, i, k]]"
  by (simp add: is3x3_def)

text \<open>A well-shaped faces object is a record of 54 stickers.\<close>

lemma wellShapedE:
  assumes "wellShaped s"
  obtains f1 f2 f3 f4 f5 f6 f7 f8 f9 b1 b2 b3 b4 b5 b6 b7 b8 b9
    l1 l2 l3 l4 l5 l6 l7 l8 l9 r1 r2 r3 r4 r5 r6 r7 r8 r9
    t1 t2 t3 t4 t5 t6 t7 t8 t9 d1 d2 d3 d4 d5 d6 d7 d8 d9
  where "s = \<lparr>front = [[f1, f2, f3], [f4, f5, f6], [f7, f8, f9]],
     back = [[b1, b2, b3], [b4, b5, b6], [b7, b8, b9]],
     left = [[l1, l2, l3], [l4, l5, l6], [l7, l8, l9]],
     right = [[r1, r2, r3], [r4, r5, r6], [r7, r8, r9]],
     top' = [[t1, t2, t3], [t4, t5, t6], [t7, t8, t9]],
     bottom = [[d1, d2, d3], [d4, d5, d6], [d7, d8, d9]]\<rparr>"
proof -
  from assms have "is3x3 (front s)" "is3x3 (back s)" "is3x3 (left s)"
    "is3x3 (right s)" "is3x3 (top' s)" "is3x3 (bottom s)"
    by (simp_all add: wellShaped_def Object_values_def)
  then show thesis
    by (elim is3x3E) (rule that, cases s, simp)
qed

lemma wellShaped_grid [simp]:
  "wellShaped \<lparr>front = [[f1, f2, f3], [f4, f5, f6], [f7, f8, f9]],
     back = [[b1, b2, b3], [b4, b5, b6], [b7, b8, b9]],
     left = [[l1, l2, l3], [l4, l5, l6], [l7, l8, l9]],
     right = [[r1, r2, r3], [r4, r5, r6], [r7, r8, r9]],
     top' = [[t1, t2, t3], [t4, t5, t6], [t7, t8, t9]],
     bottom = [[d1, d2, d3], [d4, d5, d6], [d7, d8, d9]]\<rparr>"
  by (simp add: wellShaped_def Object_values_def)

lemmas index_defs = item_def row_def cell_def setRow_def setCell_def

lemmas stmt_defs = getRow_def getCell_def putRow_def putCell_def copyRow_def copyCell_def
  turnFace_def

lemma rotateFace_grid:
  "rotateFace [[a, b, c], [d, e, g], [h, i, k]] = Some [[h, d, a], [i, e, b], [k, g, c]]"
  by (simp add: rotateFace_def upt3 index_defs)

lemma clockwise_grid:
  "clockwise [[a, b, c], [d, e, g], [h, i, k]] = [[h, d, a], [i, e, b], [k, g, c]]"
  by (simp add: clockwise_def transpose.simps)

lemma moveU_grid:
  "moveU \<lparr>front = [[f1, f2, f3], [f4, f5, f6], [f7, f8, f9]],
         back = [[b1, b2, b3], [b4, b5, b6], [b7, b8, b9]],
         left = [[l1, l2, l3], [l4, l5, l6], [l7, l8, l9]],
         right = [[r1, r2, r3], [r4, r5, r6], [r7, r8, r9]],
         top' = [[t1, t2, t3], [t4, t5, t6], [t7, t8, t9]],
         bottom = [[d1, d2, d3], [d4, d5, d6], [d7, d8, d9]]\<rparr>
   = Some \<lparr>front = [[r1, r2, r3], [f4, f5, f6], [f7, f8, f9]],
          back = [[l1, l2, l3], [b4, b5, b6], [b7, b8, b9]],
          left = [[f1, f2, f3], [l4, l5, l6], [l7, l8, l9]],
          right = [[b1, b2, b3], [r4, r5, r6], [r7, r8, r9]],
          top' = [[t7, t4, t1], [t8, t5, t2], [t9, t6, t3]],
          bottom = [[d1, d2, d3], [d4, d5, d6], [d7, d8, d9]]\<rparr>"
  by (simp add: moveU_def stmt_defs index_defs rotateFace_grid)

lemma moveD_grid:
  "moveD \<lparr>front = [[f1, f2, f3], [f4, f5, f6], [f7, f8, f9]],
         back = [[b1, b2, b3], [b4, b5, b6], [b7, b8, b9]],
         left = [[l1, l2, l3], [l4, l5, l6], [l7, l8, l9]],
         right = [[r1, r2, r3], [r4, r5, r6], [r7, r8, r9]],
         top' = [[t1, t2, t3], [t4, t5, t6], [t7, t8, t9]],
         bottom = [[d1, d2, d3], [d4, d5, d6], [d7, d8, d9]]\<rparr>
   = Some \<lparr>front = [[f1, f2, f3], [f4, f5, f6], [l7, l8, l9]],
          back = [[b1, b2, b3], [b4, b5, b6], [r7, r8, r9]],
          left = [[l1, l2, l3], [l4, l5, l6], [b7, b8, b9]],
          right = [[r1, r2, r3], [r4, r5, r6], [f7, f8, f9]],
          top' = [[t1, t2, t3], [t4, t5, t6], [t7, t8, t9]],
          bottom = [[d7, d4, d1], [d8, d5, d2], [d9, d6, d3]]\<rparr>"
  by (simp add: moveD_def stmt_defs index_defs rotateFace_grid)

lemma moveR_grid:
  "moveR \<lparr>front = [[f1, f2, f3], [f4, f5, f6], [f7, f8, f9]],
         back = [[b1, b2, b3], [b4, b5, b6], [b7, b8, b9]],
         left = [[l1, l2, l3], [l4, l5, l6], [l7, l8, l9]],
         right = [[r1, r2, r3], [r4, r5, r6], [r7, r8, r9]],
         top' = [[t1, t2, t3], [t4, t5, t6], [t7, t8, t9]],
         bottom = [[d1, d2, d3], [d4, d5, d6], [d7, d8, d9]]\<rparr>
   = Some \<lparr>front = [[f1, f2, d3], [f4, f5, d6], [f7, f8, d9]],
          back = [[t9, b2, b3], [t6, b5, b6], [t3, b8, b9]],
          left = [[l1, l2, l3], [l4, l5, l6], [l7, l8, l9]],
          right = [[r7, r4, r1], [r8, r5, r2], [r9, r6, r3]],
          top' = [[t1, t2, f3], [t4, t5, f6], [t7, t8, f9]],
          bottom = [[d1, d2, b7], [d4, d5, b4], [d7, d8, b1]]\<rparr>"
  by (simp add: moveR_def stmt_defs index_defs rotateFace_grid)

lemma moveL_grid:
  "moveL \<lparr>front = [[f1, f2, f3], [f4, f5, f6], [f7, f8, f9]],
         back = [[b1, b2, b3], [b4, b5, b6], [b7, b8, b9]],
         left = [[l1, l2, l3], [l4, l5, l6], [l7, l8, l9]],
         right = [[r1, r2, r3], [r4, r5, r6], [r7, r8, r9]],
         top' = [[t1, t2, t3], [t4, t5, t6], [t7, t8, t9]],
         bottom = [[d1, d2, d3], [d4, d5, d6], [d7, d8, d9]]\<rparr>
   = Some \<lparr>front = [[t1, f2, f3], [t4, f5, f6], [t7, f8, f9]],
          back = [[b1, b2, d7], [b4, b5, d4], [b7, b8, d1]],
          left = [[l7, l4, l1], [l8, l5, l2], [l9, l6, l3]],
          right = [[r1, r2, r3], [r4, r5, r6], [r7, r8, r9]],
          top' = [[b9, t2, t3], [b6, t5, t6], [b3, t8, t9]],
          bottom = [[f1, d2, d3], [f4, d5, d6], [f7, d8, d9]]\<rparr>"
  by (simp add: moveL_def stmt_defs index_defs rotateFace_grid)

lemma moveF_grid:
  "moveF \<lparr>front = [[f1, f2, f3], [f4, f5, f6], [f7, f8, f9]],
         back = [[b1, b2, b3], [b4, b5, b6], [b7, b8, b9]],
         left = [[l1, l2, l3], [l4, l5, l6], [l7, l8, l9]],
         right = [[r1, r2, r3], [r4, r5, r6], [r7, r8, r9]],
         top' = [[t1, t2, t3], [t4, t5, t6], [t7, t8, t9]],
         bottom = [[d1, d2, d3], [d4, d5, d6], [d7, d8, d9]]\<rparr>
   = Some \<lparr>front = [[f7, f4, f1], [f8, f5, f2], [f9, f6, f3]],
          back = [[b1, b2, b3], [b4, b5, b6], [b7, b8, b9]],
          left = [[l1, l2, d1], [l4, l5, d2], [l7, l8, d3]],
          right = [[t7, r2, r3], [t8, r5, r6], [t9, r8, r9]],
          top' = [[t1, t2, t3], [t4, t5, t6], [l9, l6, l3]],
          bottom = [[r7, r4, r1], [d4, d5, d6], [d7, d8, d9]]\<rparr>"
  by (simp add: moveF_def stmt_defs index_defs rotateFace_grid)

lemma moveB_grid:
  "moveB \<lparr>front = [[f1, f2, f3], [f4, f5, f6], [f7, f8, f9]],
         back = [[b1, b2, b3], [b4, b5, b6], [b7, b8, b9]],
         left = [[l1, l2, l3], [l4, l5, l6], [l7, l8, l9]],
         right = [[r1, r2, r3], [r4, r5, r6], [r7, r8, r9]],
         top' = [[t1, t2, t3], [t4, t5, t6], [t7, t8, t9]],
         bottom = [[d1, d2, d3], [d4, d5, d6], [d7, d8, d9]]\<rparr>
   = Some \<lparr>front = [[f1, f2, f3], [f4, f5, f6], [f7, f8, f9]],
          back = [[b7, b4, b1], [b8, b5, b2], [b9, b6, b3]],
          left = [[t3, l2, l3], [t2, l5, l6], [t1, l8, l9]],
          right = [[r1, r2, d9], [r4, r5, d8], [r7, r8, d7]],
          top' = [[r3, r6, r9], [t4, t5, t6], [t7, t8, t9]],
          bottom = [[d1, d2, d3], [d4, d5, d6], [l7, l4, l1]]\<rparr>"
  by (simp add: moveB_def stmt_defs index_defs rotateFace_grid)

lemmas move_grids = moveU_grid moveD_grid moveR_grid moveL_grid moveF_grid moveB_grid

section \<open>Every move permutes the stickers of a well-shaped state\<close>

lemma moveU_permutes:
  assumes "wellShaped s"
  shows "\<exists>s'. moveU s = Some s' \<and> wellShaped s' \<and> mset (stickers s') = mset (stickers s)"
  using assms by (elim wellShapedE) (simp add: moveU_grid stickers_def Object_values_def)

lemma moveD_permutes:
  assumes "wellShaped s"
  shows "\<exists>s'. moveD s = Some s' \<and> wellShaped s' \<and> mset (stickers s') = mset (stickers s)"
  using assms by (elim wellShapedE) (simp add: moveD_grid stickers_def Object_values_def)

lemma moveR_permutes:
  assumes "wellShaped s"
  shows "\<exists>s'. moveR s = Some s' \<and> wellShaped s' \<and> mset (stickers s') = mset (stickers s)"
  using assms by (elim wellShapedE) (simp add: moveR_grid stickers_def Object_values_def)

lemma moveL_permutes:
  assumes "wellShaped s"
  shows "\<exists>s'. moveL s = Some s' \<and> wellShaped s' \<and> mset (stickers s') = mset (stickers s)"
  using assms by (elim wellShapedE) (simp add: moveL_grid stickers_def Object_values_def)

lemma moveF_permutes:
  assumes "wellShaped s"
  shows "\<exists>s'. moveF s = Some s' \<and> wellShaped s' \<and> mset (stickers s') = mset (stickers s)"
  using assms by (elim wellShapedE) (simp add: moveF_grid stickers_def Object_values_def)

lemma moveB_permutes:
  assumes "wellShaped s"
  shows "\<exists>s'. moveB s = Some s' \<and> wellShaped s' \<and> mset (stickers s') = mset (stickers s)"
  using assms by (elim wellShapedE) (simp add: moveB_grid stickers_def Object_values_def)

lemma twice_permutes:
  assumes m: "\<And>s. wellShaped s \<Longrightarrow>
      \<exists>s'. m s = Some s' \<and> wellShaped s' \<and> mset (stickers s') = mset (stickers s)"
    and s: "wellShaped s"
  shows "\<exists>s'. twice m s = Some s' \<and> wellShaped s' \<and> mset (stickers s') = mset (stickers s)"
proof -
  from m [OF s] obtain s1 where 1: "m s = Some s1" "wellShaped s1"
    "mset (stickers s1) = mset (stickers s)" by blast
  from m [OF 1(2)] obtain s2 where 2: "m s1 = Some s2" "wellShaped s2"
    "mset (stickers s2) = mset (stickers s1)" by blast
  from 1 2 show ?thesis by (simp add: twice_def)
qed

lemma thrice_permutes:
  assumes m: "\<And>s. wellShaped s \<Longrightarrow>
      \<exists>s'. m s = Some s' \<and> wellShaped s' \<and> mset (stickers s') = mset (stickers s)"
    and s: "wellShaped s"
  shows "\<exists>s'. thrice m s = Some s' \<and> wellShaped s' \<and> mset (stickers s') = mset (stickers s)"
proof -
  from m [OF s] obtain s1 where 1: "m s = Some s1" "wellShaped s1"
    "mset (stickers s1) = mset (stickers s)" by blast
  from m [OF 1(2)] obtain s2 where 2: "m s1 = Some s2" "wellShaped s2"
    "mset (stickers s2) = mset (stickers s1)" by blast
  from m [OF 2(2)] obtain s3 where 3: "m s2 = Some s3" "wellShaped s3"
    "mset (stickers s3) = mset (stickers s2)" by blast
  from 1 2 3 show ?thesis by (simp add: thrice_def)
qed

lemmas quarter_permutes = moveU_permutes moveD_permutes moveR_permutes moveL_permutes
  moveF_permutes moveB_permutes

lemma getMoveFunction_permutes:
  assumes "getMoveFunction move = Some m" and "wellShaped s"
  shows "\<exists>s'. m s = Some s' \<and> wellShaped s' \<and> mset (stickers s') = mset (stickers s)"
  using assms
  by (auto simp: getMoveFunction_def split: if_splits
      intro: quarter_permutes twice_permutes thrice_permutes)

lemma getMoveFunction_None: "getMoveFunction move = None \<longleftrightarrow> move \<notin> set CubeMove"
  by (simp add: getMoveFunction_def CubeMove_def apostrophe_def)

section \<open>The solved check on a well-shaped state\<close>

lemma scanCells_grid:
  "scanCells [[a, b, c], [d, e, g], [h, i, k]] x positions
   = Some (a = x \<and> b = x \<and> c = x \<and> d = x \<and> e = x \<and> g = x \<and> h = x \<and> i = x \<and> k = x)"
  by (simp add: positions_def upt3 index_defs)

lemma equalsFirst_grid:
  "equalsFirst [[a, b, c], [d, e, g], [h, i, k]]
   \<longleftrightarrow> b = a \<and> c = a \<and> d = a \<and> e = a \<and> g = a \<and> h = a \<and> i = a \<and> k = a"
  by (simp add: equalsFirst_def)

lemma allIdentical_grid:
  "allIdentical [[a, b, c], [d, e, g], [h, i, k]]
   \<longleftrightarrow> b = a \<and> c = a \<and> d = a \<and> e = a \<and> g = a \<and> h = a \<and> i = a \<and> k = a"
  by (auto simp: allIdentical_def)

lemma scanFaces_3x3: "list_all is3x3 fs \<Longrightarrow> scanFaces fs = Some (list_all equalsFirst fs)"
proof (induction fs)
  case Nil
  show ?case by simp
next
  case (Cons f fs)
  then have "is3x3 f" and rest: "scanFaces fs = Some (list_all equalsFirst fs)"
    by simp_all
  from \<open>is3x3 f\<close> obtain a b c d e g h i k
    where f: "f = [[a, b, c], [d, e, g], [h, i, k]]"
    by (rule is3x3E)
  have first: "cell f 0 0 = Some a"
    by (simp add: f index_defs)
  have scan: "scanCells f a positions = Some (equalsFirst f)"
    by (simp add: f scanCells_grid equalsFirst_grid)
  show ?case
    by (simp add: first scan rest)
qed

lemma isSolved_wellShaped:
  "wellShaped (faces this) \<Longrightarrow>
     isSolved this = Some (list_all equalsFirst (Object_values (faces this)))"
  by (simp add: isSolved_def wellShaped_def scanFaces_3x3)

lemma equalsFirst_allIdentical: "is3x3 f \<Longrightarrow> equalsFirst f = allIdentical f"
  by (elim is3x3E) (simp add: equalsFirst_grid allIdentical_grid)

lemma everyFaceUniform_wellShaped:
  "wellShaped s \<Longrightarrow> list_all equalsFirst (Object_values s) = everyFaceUniform s"
  by (simp add: wellShaped_def everyFaceUniform_def Object_values_def equalsFirst_allIdentical)

section \<open>A call of executeMove with a token of the alphabet\<close>

lemma executeMove_Some:
  assumes "getMoveFunction move = Some m" and "m (faces this) = Some fs" and "wellShaped fs"
  shows "executeMove move this
    = Some (Inr (), \<lparr>faces = fs, solved = everyFaceUniform fs,
                     moveHistory = moveHistory this @ [move]\<rparr>)"
  using assms
  by (cases this)
    (simp add: executeMove_def checkSolved_def isSolved_wellShaped everyFaceUniform_wellShaped)

lemma executeMove_valid:
  assumes "move \<in> set CubeMove" and "wellShaped (faces this)"
  shows "\<exists>fs. wellShaped fs \<and> mset (stickers fs) = mset (stickers (faces this)) \<and>
     executeMove move this
       = Some (Inr (), \<lparr>faces = fs, solved = everyFaceUniform fs,
                        moveHistory = moveHistory this @ [move]\<rparr>)"
proof -
  from assms(1) obtain m where m: "getMoveFunction move = Some m"
    using getMoveFunction_None [of move] by (cases "getMoveFunction move") auto
  from getMoveFunction_permutes [OF m assms(2)] obtain fs where
    "m (faces this) = Some fs" "wellShaped fs" "mset (stickers fs) = mset (stickers (faces this))"
    by blast
  with executeMove_Some [OF m] show ?thesis by blast
qed

section \<open>Four quarter turns\<close>

lemma moveU_four: "wellShaped s \<Longrightarrow> thrice moveU s \<bind> moveU = Some s"
  by (elim wellShapedE) (simp add: moveU_grid thrice_def)

lemma moveD_four: "wellShaped s \<Longrightarrow> thrice moveD s \<bind> moveD = Some s"
  by (elim wellShapedE) (simp add: moveD_grid thrice_def)

lemma moveR_four: "wellShaped s \<Longrightarrow> thrice moveR s \<bind> moveR = Some s"
  by (elim wellShapedE) (simp add: moveR_grid thrice_def)

lemma moveL_four: "wellShaped s \<Longrightarrow> thrice moveL s \<bind> moveL = Some s"
  by (elim wellShapedE) (simp add: moveL_grid thrice_def)

lemma moveF_four: "wellShaped s \<Longrightarrow> thrice moveF s \<bind> moveF = Some s"
  by (elim wellShapedE) (simp add: moveF_grid thrice_def)

lemma four_calls:
  assumes m: "getMoveFunction move = Some m"
    and four: "\<And>s. wellShaped s \<Longrightarrow> thrice m s \<bind> m = Some s"
    and s: "wellShaped (faces this)"
  shows "\<exists>this'. executeMoves [move, move, move, move] this = Some this' \<and>
           faces this' = faces this"
proof -
  note p = getMoveFunction_permutes [OF m]
  from p [OF s] obtain s1 where 1: "m (faces this) = Some s1" "wellShaped s1" by blast
  from p [OF 1(2)] obtain s2 where 2: "m s1 = Some s2" "wellShaped s2" by blast
  from p [OF 2(2)] obtain s3 where 3: "m s2 = Some s3" "wellShaped s3" by blast
  from p [OF 3(2)] obtain s4 where 4: "m s3 = Some s4" "wellShaped s4" by blast
  from four [OF s] 1 2 3 4 have again: "s4 = faces this"
    by (simp add: thrice_def)
  show ?thesis
    using 1 2 3 4 again by (simp add: executeMove_Some [OF m])
qed

text \<open>Five of the six quarter turns have order four on the faces.\<close>

lemma quarter_turn_four_times:
  assumes "move \<in> {''U'', ''D'', ''L'', ''R'', ''F''}" and "wellShaped (faces this)"
  shows "\<exists>this'. executeMoves [move, move, move, move] this = Some this' \<and>
           faces this' = faces this"
proof -
  from assms(1) consider "move = ''U''" | "move = ''D''" | "move = ''L''"
    | "move = ''R''" | "move = ''F''" by auto
  then show ?thesis
  proof cases
    case 1
    then have "getMoveFunction move = Some moveU" by (simp add: getMoveFunction_def)
    then show ?thesis using moveU_four assms(2) by (rule four_calls)
  next
    case 2
    then have "getMoveFunction move = Some moveD" by (simp add: getMoveFunction_def)
    then show ?thesis using moveD_four assms(2) by (rule four_calls)
  next
    case 3
    then have "getMoveFunction move = Some moveL" by (simp add: getMoveFunction_def)
    then show ?thesis using moveL_four assms(2) by (rule four_calls)
  next
    case 4
    then have "getMoveFunction move = Some moveR" by (simp add: getMoveFunction_def)
    then show ?thesis using moveR_four assms(2) by (rule four_calls)
  next
    case 5
    then have "getMoveFunction move = Some moveF" by (simp add: getMoveFunction_def)
    then show ?thesis using moveF_four assms(2) by (rule four_calls)
  qed
qed

text \<open>
  Four B turns do not: they swap the two ends of each of the four strips that B cycles.
\<close>

lemma moveB_four_grid:
  "thrice moveB \<lparr>front = [[f1, f2, f3], [f4, f5, f6], [f7, f8, f9]],
         back = [[b1, b2, b3], [b4, b5, b6], [b7, b8, b9]],
         left = [[l1, l2, l3], [l4, l5, l6], [l7, l8, l9]],
         right = [[r1, r2, r3], [r4, r5, r6], [r7, r8, r9]],
         top' = [[t1, t2, t3], [t4, t5, t6], [t7, t8, t9]],
         bottom = [[d1, d2, d3], [d4, d5, d6], [d7, d8, d9]]\<rparr> \<bind> moveB
   = Some \<lparr>front = [[f1, f2, f3], [f4, f5, f6], [f7, f8, f9]],
         back = [[b1, b2, b3], [b4, b5, b6], [b7, b8, b9]],
         left = [[l7, l2, l3], [l4, l5, l6], [l1, l8, l9]],
         right = [[r1, r2, r9], [r4, r5, r6], [r7, r8, r3]],
         top' = [[t3, t2, t1], [t4, t5, t6], [t7, t8, t9]],
         bottom = [[d1, d2, d3], [d4, d5, d6], [d9, d8, d7]]\<rparr>"
  by (simp add: moveB_grid thrice_def)

text \<open>
  Claim C1. For every state of six 3x3 grids and each of the tokens U, D, L, R, F, B, four
  applications of the token's quarter turn give back the faces as they were. The lemmas above
  show this for U, D, L, R and F, and what four B turns do instead. For B the claim fails: on
  the state reached from a new cube by R, whose top row is W W G, four B turns return the top
  row as G W W. (\<^verbatim>\<open>moveB\<close> reverses three of the four strips it cycles, \<^verbatim>\<open>moveF\<close> two.)
\<close>

theorem moveB_four_times_differs:
  "executeMoves [''R''] createSolvedCube = Some afterR \<and>
   map_option faces (executeMoves [''B'', ''B'', ''B'', ''B''] afterR) \<noteq> Some (faces afterR) \<and>
   top' (faces afterR) ! 0 = [WHITE, WHITE, GREEN] \<and>
   map_option (\<lambda>this. top' (faces this) ! 0) (executeMoves [''B'', ''B'', ''B'', ''B''] afterR)
     = Some [GREEN, WHITE, WHITE]"
  by code_simp

section \<open>The sticker count\<close>

lemma executeMoves_permutes:
  assumes "set moves \<subseteq> set CubeMove" and "wellShaped (faces this)"
  shows "\<exists>this'. executeMoves moves this = Some this' \<and> wellShaped (faces this') \<and>
     mset (stickers (faces this')) = mset (stickers (faces this))"
  using assms
proof (induction moves arbitrary: this)
  case Nil
  then show ?case by simp
next
  case (Cons move moves)
  from Cons.prems have "move \<in> set CubeMove" by simp
  from executeMove_valid [OF this Cons.prems(2)] obtain fs where fs: "wellShaped fs"
    "mset (stickers fs) = mset (stickers (faces this))"
    "executeMove move this = Some (Inr (), \<lparr>faces = fs, solved = everyFaceUniform fs,
        moveHistory = moveHistory this @ [move]\<rparr>)"
    by blast
  let ?next = "\<lparr>faces = fs, solved = everyFaceUniform fs,
        moveHistory = moveHistory this @ [move]\<rparr>"
  from Cons.prems have "set moves \<subseteq> set CubeMove" by simp
  moreover from fs(1) have "wellShaped (faces ?next)" by simp
  ultimately obtain this' where "executeMoves moves ?next = Some this'"
    "wellShaped (faces this')" "mset (stickers (faces this')) = mset (stickers (faces ?next))"
    using Cons.IH by blast
  with fs show ?case by simp
qed

lemma colorCount_mset: "colorCount this c = count (mset (stickers (faces this))) c"
  by (simp add: colorCount_def count_mset)

lemma colorCount_solved: "\<forall>c \<in> set COLORS. colorCount createSolvedCube c = 9"
  by code_simp

lemma length_stickers_solved: "length (stickers (faces createSolvedCube)) = 54"
  by code_simp

text \<open>
  Claim C2. From a new cube, every finite sequence of \<^verbatim>\<open>executeMove\<close> calls with tokens of the
  alphabet runs through, and in the state it reaches each of the 6 colours is on exactly 9 of
  the 54 stickers.
\<close>

theorem sticker_count_invariant:
  assumes "set moves \<subseteq> set CubeMove"
  shows "\<exists>this. executeMoves moves createSolvedCube = Some this \<and>
     (\<forall>c \<in> set COLORS. colorCount this c = 9) \<and> length (stickers (faces this)) = 54"
proof -
  have "wellShaped (faces createSolvedCube)"
    by (simp add: createSolvedCube_def uniform_def)
  from executeMoves_permutes [OF assms this] obtain this' where
    run: "executeMoves moves createSolvedCube = Some this'" and
    same: "mset (stickers (faces this')) = mset (stickers (faces createSolvedCube))"
    by blast
  from same have "\<forall>c \<in> set COLORS. colorCount this' c = 9"
    using colorCount_solved by (simp add: colorCount_mset)
  moreover from same have "length (stickers (faces this')) = 54"
    using length_stickers_solved by (metis size_mset)
  ultimately show ?thesis using run by blast
qed

theorem sticker_count_invariant_witness:
  "set [''R'', ''U'' @ apostrophe, ''F2'', ''B''] \<subseteq> set CubeMove \<and>
   (\<exists>this. executeMoves [''R'', ''U'' @ apostrophe, ''F2'', ''B''] createSolvedCube = Some this \<and>
     (\<forall>c \<in> set COLORS. colorCount this c = 9) \<and> length (stickers (faces this)) = 54)"
  using sticker_count_invariant [of "[''R'', ''U'' @ apostrophe, ''F2'', ''B'']"]
  by (simp add: CubeMove_def)

section \<open>The D move\<close>

text \<open>
  What \<^verbatim>\<open>executeMove('D')\<close> and \<^verbatim>\<open>executeMove('U')\<close> do to the faces, row by row:
  \<open>(front s)[2 := left s ! 2]\<close> is the front face with its bottom row replaced by the old
  bottom row of left.
\<close>

lemma executeMove_D:
  assumes "wellShaped (faces this)"
  shows "\<exists>this'. executeMove ''D'' this = Some (Inr (), this') \<and>
      bottom (faces this') = clockwise (bottom (faces this)) \<and>
      front (faces this') = (front (faces this))[2 := left (faces this) ! 2] \<and>
      left (faces this') = (left (faces this))[2 := back (faces this) ! 2] \<and>
      back (faces this') = (back (faces this))[2 := right (faces this) ! 2] \<and>
      right (faces this') = (right (faces this))[2 := front (faces this) ! 2] \<and>
      top' (faces this') = top' (faces this)"
proof -
  have m: "getMoveFunction ''D'' = Some moveD"
    by (simp add: getMoveFunction_def)
  from assms show ?thesis
    by (elim wellShapedE) (simp add: executeMove_Some [OF m] moveD_grid clockwise_grid)
qed

lemma executeMove_U:
  assumes "wellShaped (faces this)"
  shows "\<exists>this'. executeMove ''U'' this = Some (Inr (), this') \<and>
      top' (faces this') = clockwise (top' (faces this)) \<and>
      left (faces this') = (left (faces this))[0 := front (faces this) ! 0] \<and>
      front (faces this') = (front (faces this))[0 := right (faces this) ! 0] \<and>
      right (faces this') = (right (faces this))[0 := back (faces this) ! 0] \<and>
      back (faces this') = (back (faces this))[0 := left (faces this) ! 0] \<and>
      bottom (faces this') = bottom (faces this)"
proof -
  have m: "getMoveFunction ''U'' = Some moveU"
    by (simp add: getMoveFunction_def)
  from assms show ?thesis
    by (elim wellShapedE) (simp add: executeMove_Some [OF m] moveU_grid clockwise_grid)
qed

text \<open>
  Claim C3. On every state of six 3x3 grids, \<^verbatim>\<open>executeMove('D')\<close> replaces the bottom face by
  its clockwise rotation and moves the bottom rows one step round the cycle
  front \<open>\<rightarrow>\<close> left \<open>\<rightarrow>\<close> back \<open>\<rightarrow>\<close> right \<open>\<rightarrow>\<close> front, an arrow A \<open>\<rightarrow>\<close> B meaning
  that A takes the old row of B: front takes left's row, left takes back's, back takes right's,
  right takes front's. This is the reading under which the cycle
  left \<open>\<rightarrow>\<close> front \<open>\<rightarrow>\<close> right \<open>\<rightarrow>\<close> back \<open>\<rightarrow>\<close> left of U carries front's row to left (second
  conjunct), and the two cycles run in opposite senses: under U front takes right's row, under
  D front takes left's. The top face is not touched by D.
\<close>

theorem moveD_cycle:
  assumes "wellShaped (faces this)"
  shows "(\<exists>this'. executeMove ''D'' this = Some (Inr (), this') \<and>
      bottom (faces this') = clockwise (bottom (faces this)) \<and>
      front (faces this') = (front (faces this))[2 := left (faces this) ! 2] \<and>
      left (faces this') = (left (faces this))[2 := back (faces this) ! 2] \<and>
      back (faces this') = (back (faces this))[2 := right (faces this) ! 2] \<and>
      right (faces this') = (right (faces this))[2 := front (faces this) ! 2] \<and>
      top' (faces this') = top' (faces this)) \<and>
    (\<exists>this'. executeMove ''U'' this = Some (Inr (), this') \<and>
      left (faces this') = (left (faces this))[0 := front (faces this) ! 0] \<and>
      front (faces this') = (front (faces this))[0 := right (faces this) ! 0] \<and>
      right (faces this') = (right (faces this))[0 := back (faces this) ! 0] \<and>
      back (faces this') = (back (faces this))[0 := left (faces this) ! 0])"
  using executeMove_D [OF assms] executeMove_U [OF assms] by blast

theorem moveD_cycle_witness:
  "wellShaped (faces afterR) \<and>
   (\<exists>this'. executeMove ''D'' afterR = Some (Inr (), this') \<and>
      bottom (faces this') = [[YELLOW, YELLOW, YELLOW], [YELLOW, YELLOW, YELLOW], [BLUE, BLUE, BLUE]] \<and>
      front (faces this') ! 2 = [ORANGE, ORANGE, ORANGE] \<and>
      left (faces this') ! 2 = [WHITE, BLUE, BLUE] \<and>
      back (faces this') ! 2 = [RED, RED, RED] \<and>
      right (faces this') ! 2 = [GREEN, GREEN, YELLOW])"
  using moveD_cycle [of afterR]
  by (auto simp: afterR_def uniform_def clockwise_grid)

section \<open>The handlers\<close>

text \<open>
  Claim C4. A move request (any token) against a session whose status is completed is not
  executed and raises nothing: the handler answers with the engine's current state and
  \<^verbatim>\<open>nextAction = "finish"\<close>, and the registry is the same after the call as before, so the
  faces, the solved flag, the move history and the status are unchanged.
\<close>

theorem completed_session_move_ignored:
  assumes "games gId = Some (engine, session)" and "status session = completed"
  shows "manipulateCube gId move now now' games
     = Some (Inr \<lparr>gameId = gId, cube = engine, nextAction = Some ''finish''\<rparr>, games)"
  using assms by (simp add: manipulateCube_def getState_def)

theorem completed_session_move_ignored_witness:
  "exampleGames completed ''g'' = Some (afterR, exampleSession completed) \<and>
   status (exampleSession completed) = completed \<and>
   manipulateCube ''g'' ''U'' 3 4 (exampleGames completed)
     = Some (Inr \<lparr>gameId = ''g'', cube = afterR, nextAction = Some ''finish''\<rparr>,
             exampleGames completed)"
  using completed_session_move_ignored [of "exampleGames completed" "''g''" afterR
      "exampleSession completed" "''U''" 3 4]
  by (simp add: exampleGames_def exampleSession_def)

text \<open>
  Claim C8. \<^verbatim>\<open>finish\<close> on an id of the registry sets the session's status to completed and
  its \<^verbatim>\<open>lastActivity\<close> to the clock reading, whether or not the cube is solved, and changes
  nothing else: the engine state, the session's \<^verbatim>\<open>cubeState\<close> and the other sessions stay
  as they were. It throws the not-found error exactly when the id is absent, and then leaves
  the registry unchanged.
\<close>

theorem finish_completes:
  "(games gId = None \<longrightarrow> finish gId now games = (Inl (SessionNotFound gId), games)) \<and>
   (games gId = Some (engine, session) \<longrightarrow>
      finish gId now games
        = (Inr \<lparr>gameId = gId, cube = engine, nextAction = None\<rparr>,
           games(gId \<mapsto> (engine, session\<lparr>status := completed, lastActivity := now\<rparr>)))) \<and>
   (fst (finish gId now games) = Inl (SessionNotFound gId) \<longleftrightarrow> games gId = None)"
  by (cases "games gId") (auto simp: finish_def getState_def)

theorem finish_completes_witness:
  "exampleGames active ''h'' = None \<and>
   finish ''h'' 9 (exampleGames active) = (Inl (SessionNotFound ''h''), exampleGames active) \<and>
   exampleGames active ''g'' = Some (afterR, exampleSession active) \<and>
   \<not> solved afterR \<and>
   finish ''g'' 9 (exampleGames active)
     = (Inr \<lparr>gameId = ''g'', cube = afterR, nextAction = None\<rparr>,
        [''g'' \<mapsto> (afterR, \<lparr>id' = ''g'', cubeState = afterR, createdAt = 1,
                                lastActivity = 9, status = completed\<rparr>)])"
  using finish_completes [of "exampleGames active" "''h''" 9 afterR "exampleSession active"]
    finish_completes [of "exampleGames active" "''g''" 9 afterR "exampleSession active"]
  by (simp add: exampleGames_def exampleSession_def afterR_def)


section \<open>The solved flag\<close>

text \<open>
  \<^verbatim>\<open>setState\<close> does not recompute the flag: a snapshot with the faces of a new cube and
  \<^verbatim>\<open>solved = false\<close> is installed as it is, so after the call the flag is false on faces
  that are each uniform.
\<close>

theorem setState_keeps_flag_counterexample:
  "solved (setState (createSolvedCube\<lparr>solved := False\<rparr>) afterR)
    \<noteq> everyFaceUniform (faces (setState (createSolvedCube\<lparr>solved := False\<rparr>) afterR))"
  by code_simp

text \<open>
  Claim C5, amended. After every \<^verbatim>\<open>executeMove\<close> with a token of the alphabet on a state of
  six 3x3 grids (whatever flag that state carried, for instance one installed by
  \<^verbatim>\<open>setState\<close>), the solved flag equals "on each of the 6 faces all 9 stickers are identical
  to each other". \<^verbatim>\<open>setState\<close> itself stores the flag and the faces of the snapshot unchanged;
  it does not recompute the flag.
\<close>

theorem solved_flag_recomputed_by_executeMove:
  "(move \<in> set CubeMove \<longrightarrow> wellShaped (faces this) \<longrightarrow>
      (\<exists>this'. executeMove move this = Some (Inr (), this') \<and>
         solved this' = everyFaceUniform (faces this'))) \<and>
   solved (setState snapshot engine) = solved snapshot \<and>
   faces (setState snapshot engine) = faces snapshot"
proof -
  have "\<exists>this'. executeMove move this = Some (Inr (), this') \<and>
         solved this' = everyFaceUniform (faces this')"
    if "move \<in> set CubeMove" and "wellShaped (faces this)"
    using executeMove_valid [OF that] by auto
  then show ?thesis
    by (simp add: setState_def)
qed

theorem solved_flag_recomputed_by_executeMove_witness:
  "''L'' \<in> set CubeMove \<and>
   wellShaped (faces (setState (createSolvedCube\<lparr>solved := False\<rparr>) afterR)) \<and>
   (\<exists>this'. executeMove ''L'' (setState (createSolvedCube\<lparr>solved := False\<rparr>) afterR)
        = Some (Inr (), this') \<and>
      solved this' = everyFaceUniform (faces this')) \<and>
   solved (setState (createSolvedCube\<lparr>solved := False\<rparr>) afterR) = False"
  using solved_flag_recomputed_by_executeMove [of "''L''"
      "setState (createSolvedCube\<lparr>solved := False\<rparr>) afterR"
      "createSolvedCube\<lparr>solved := False\<rparr>" afterR]
  by (simp add: CubeMove_def setState_def createSolvedCube_def uniform_def)

section \<open>Tokens\<close>

text \<open>
  Claim C6. \<^verbatim>\<open>executeMove\<close> with a token outside the 18-token alphabet throws the unknown-move
  error and leaves the engine state (faces, solved flag, move history) as it was; with a token
  of the alphabet, on a state of six 3x3 grids, it returns without throwing.
\<close>

theorem executeMove_token_check:
  "(token \<notin> set CubeMove \<longrightarrow> executeMove token this = Some (Inl (UnknownMove token), this)) \<and>
   (move \<in> set CubeMove \<longrightarrow> wellShaped (faces this) \<longrightarrow>
      (\<exists>this'. executeMove move this = Some (Inr (), this')))"
proof -
  have "executeMove token this = Some (Inl (UnknownMove token), this)"
    if "token \<notin> set CubeMove"
    using that getMoveFunction_None [of token] by (simp add: executeMove_def)
  moreover have "\<exists>this'. executeMove move this = Some (Inr (), this')"
    if "move \<in> set CubeMove" and "wellShaped (faces this)"
    using executeMove_valid [OF that] by auto
  ultimately show ?thesis by blast
qed

theorem executeMove_token_check_witness:
  "''M'' \<notin> set CubeMove \<and> executeMove ''M'' afterR = Some (Inl (UnknownMove ''M''), afterR) \<and>
   ''D'' @ apostrophe \<in> set CubeMove \<and> wellShaped (faces afterR) \<and>
   (\<exists>this'. executeMove (''D'' @ apostrophe) afterR = Some (Inr (), this'))"
  using executeMove_token_check [of "''M''" afterR "''D'' @ apostrophe"]
  by (simp add: CubeMove_def apostrophe_def afterR_def uniform_def)

section \<open>isSolved\<close>

text \<open>
  Claim C7. \<^verbatim>\<open>isSolved\<close> is true on the state the constructor creates, and for each of the 18
  tokens the state after that single move from the new cube is not solved: \<^verbatim>\<open>isSolved\<close>
  returns false on it and its solved flag is false.
\<close>

theorem new_cube_solved_one_move_unsolved:
  "isSolved createSolvedCube = Some True \<and>
   (\<forall>move \<in> set CubeMove.
      map_option (\<lambda>(r, this'). (r, isSolved this', solved this')) (executeMove move createSolvedCube)
        = Some (Inr (), Some False, False))"
  by code_simp

theorem new_cube_solved_one_move_unsolved_witness:
  "''B2'' \<in> set CubeMove \<and>
   map_option (\<lambda>(r, this'). (r, isSolved this', solved this')) (executeMove ''B2'' createSolvedCube)
        = Some (Inr (), Some False, False)"
  using new_cube_solved_one_move_unsolved
  by (simp add: CubeMove_def)

text \<open>
  Claim C9. \<^verbatim>\<open>isSolved\<close> is a function of the engine state to a truth value (it returns no
  state: nothing is assigned in its body). On a state of six 3x3 grids it is true if and only
  if, on each of the six faces, all 9 stickers equal that face's own first sticker. No relation
  between faces is required: six uniform faces of any colours, equal or not, are solved.
\<close>

theorem isSolved_per_face:
  "(wellShaped (faces this) \<longrightarrow>
      isSolved this = Some (\<forall>f \<in> set (Object_values (faces this)). equalsFirst f)) \<and>
   isSolved \<lparr>faces = \<lparr>front = uniform c1, back = uniform c2, left = uniform c3,
                       right = uniform c4, top' = uniform c5, bottom = uniform c6\<rparr>,
             solved = flag, moveHistory = history\<rparr> = Some True"
proof -
  have "isSolved this = Some (\<forall>f \<in> set (Object_values (faces this)). equalsFirst f)"
    if "wellShaped (faces this)"
    using isSolved_wellShaped [OF that] by (simp add: list_all_iff)
  moreover have "isSolved \<lparr>faces = \<lparr>front = uniform c1, back = uniform c2, left = uniform c3,
                       right = uniform c4, top' = uniform c5, bottom = uniform c6\<rparr>,
             solved = flag, moveHistory = history\<rparr> = Some True"
    by (subst isSolved_wellShaped)
      (simp_all add: uniform_def Object_values_def equalsFirst_grid)
  ultimately show ?thesis by blast
qed

theorem isSolved_per_face_witness:
  "wellShaped (faces afterR) \<and> isSolved afterR = Some False \<and>
   \<not> equalsFirst (front (faces afterR)) \<and>
   isSolved \<lparr>faces = \<lparr>front = uniform RED, back = uniform RED, left = uniform ''x'',
                       right = uniform GREEN, top' = uniform RED, bottom = uniform BLUE\<rparr>,
             solved = False, moveHistory = []\<rparr> = Some True"
  using isSolved_per_face [of afterR RED RED "''x''" GREEN RED BLUE False "[]"]
  by (simp add: afterR_def uniform_def Object_values_def equalsFirst_grid
      GREEN_def YELLOW_def)

section \<open>Shape\<close>

text \<open>
  Claim C10. On every state of six 3x3 grids, reachable or not, each of the 18 move functions
  returns a value, that is, every row and column index it uses is inside its 3-element array
  (0 to 2), and the faces it returns are again six 3x3 grids; so \<^verbatim>\<open>executeMove\<close> with a token
  of the alphabet returns, and keeps the shape.
\<close>

theorem moves_keep_shape:
  assumes "move \<in> set CubeMove" and "wellShaped (faces this)"
  shows "(\<exists>moveFunc fs. getMoveFunction move = Some moveFunc \<and>
            moveFunc (faces this) = Some fs \<and> wellShaped fs) \<and>
         (\<exists>this'. executeMove move this = Some (Inr (), this') \<and> wellShaped (faces this'))"
proof -
  from assms(1) obtain m where m: "getMoveFunction move = Some m"
    using getMoveFunction_None [of move] by (cases "getMoveFunction move") auto
  from getMoveFunction_permutes [OF m assms(2)] obtain fs where
    fs: "m (faces this) = Some fs" "wellShaped fs"
    by blast
  from executeMove_Some [OF m fs] m fs show ?thesis by simp
qed

theorem moves_keep_shape_witness:
  "''F'' @ apostrophe \<in> set CubeMove \<and> wellShaped (faces afterR) \<and>
   (\<exists>this'. executeMove (''F'' @ apostrophe) afterR = Some (Inr (), this') \<and>
       wellShaped (faces this'))"
  using moves_keep_shape [of "''F'' @ apostrophe" afterR]
  by (simp add: CubeMove_def afterR_def uniform_def)

end
